theory Spec2Isabelle
  imports Main "HOL-Library.AList" "HOL-Library.Sublist"
begin

section \<open>JavaScript values\<close>

text \<open>
  The values the store, the form manager and the servers handle. A number is an
  integer-valued JavaScript number (\<open>NaN\<close> and fractions do not occur in the code
  below); a \<open>Date\<close> is its millisecond reading. An object is the list of its own
  enumerable properties in insertion order, with no key twice; property reads see own
  properties only (the prototype chain is not modelled).
\<close>

datatype jsval =
    Undefined
  | Null
  | Bool bool
  | Num int
  | Str string
  | Arr "jsval list"
  | Obj "(string \<times> jsval) list"

text \<open>Errors the runtime itself raises.\<close>

datatype js_error = TypeError | SyntaxError

text \<open>Truthiness, as \<open>||\<close>, \<open>!\<close> and \<open>if\<close> test it.\<close>

fun truthy :: "jsval \<Rightarrow> bool" where
  "truthy Undefined = False"
| "truthy Null = False"
| "truthy (Bool b) = b"
| "truthy (Num n) = (n \<noteq> 0)"
| "truthy (Str s) = (s \<noteq> [])"
| "truthy (Arr xs) = True"
| "truthy (Obj kvs) = True"

text \<open>The decimal name of an array index.\<close>

function show_nat :: "nat \<Rightarrow> string" where
  "show_nat n =
     (if n < 10 then [char_of (48 + n)]
      else show_nat (n div 10) @ [char_of (48 + n mod 10)])"
  by pat_completeness auto
termination
  by (relation "measure id") auto

declare show_nat.simps [simp del]

text \<open>
  The own enumerable properties a spread \<open>{...v}\<close> copies: those of an object, the
  indexed elements of an array or of a string, and none for any other value
  (\<open>undefined\<close> and \<open>null\<close> included).
\<close>

fun own_props :: "jsval \<Rightarrow> (string \<times> jsval) list" where
  "own_props (Obj kvs) = kvs"
| "own_props (Arr xs) = zip (map show_nat [0..<length xs]) xs"
| "own_props (Str s) = zip (map show_nat [0..<length s]) (map (\<lambda>c. Str [c]) s)"
| "own_props Undefined = []"
| "own_props Null = []"
| "own_props (Bool b) = []"
| "own_props (Num n) = []"

text \<open>
  \<open>{...a, ...b}\<close>: a copy of \<open>a\<close> on which the properties of \<open>b\<close> are defined one
  after the other; a key \<open>a\<close> already has keeps its place and takes the new value, a
  new key is appended.
\<close>

definition merge_props :: "(string \<times> jsval) list \<Rightarrow> jsval \<Rightarrow> (string \<times> jsval) list" where
  "merge_props a b = foldl (\<lambda>obj (k, v). AList.update k v obj) a (own_props b)"

text \<open>Reading \<open>obj[k]\<close> on an object: \<open>undefined\<close> when the key is absent.\<close>

definition obj_get :: "string \<Rightarrow> (string \<times> jsval) list \<Rightarrow> jsval" where
  "obj_get k kvs = (case map_of kvs k of None \<Rightarrow> Undefined | Some v \<Rightarrow> v)"

text \<open>
  Reading \<open>v[k]\<close> on any value: a \<open>TypeError\<close> on \<open>undefined\<close> and \<open>null\<close>,
  \<open>undefined\<close> for a key the value does not have.
\<close>

fun get_prop :: "jsval \<Rightarrow> string \<Rightarrow> js_error + jsval" where
  "get_prop Undefined k = Inl TypeError"
| "get_prop Null k = Inl TypeError"
| "get_prop (Obj kvs) k = Inr (obj_get k kvs)"
| "get_prop (Arr xs) k =
     Inr (if k = ''length'' then Num (int (length xs)) else obj_get k (own_props (Arr xs)))"
| "get_prop (Str s) k =
     Inr (if k = ''length'' then Num (int (length s)) else obj_get k (own_props (Str s)))"
| "get_prop (Bool b) k = Inr Undefined"
| "get_prop (Num n) k = Inr Undefined"

section \<open>The observable store (\<open>AppState\<close>, store/state.js)\<close>

text \<open>
  A callback is a function object; the store tells two callbacks apart by reference
  (\<open>sub !== callback\<close>), so a subscriber is modelled by its reference, and every
  invocation is recorded with its two arguments in \<open>invoked\<close>. A middleware is
  modelled by the value it returns for the previous document and the pending update.
  Callbacks are taken to return normally and not to call back into the store.

  Besides the three fields of the class, the record holds what the methods read and
  write outside the object: the console, \<open>window.location.hostname\<close>, the clock
  \<open>Date.now()\<close> reads, the pending \<open>setTimeout\<close> callbacks (due time and the
  notification id each will remove) and the \<open>appState\<close> item of local storage.
\<close>

type_synonym document = "(string \<times> jsval) list"
type_synonym callback = nat
type_synonym middleware = "document \<Rightarrow> jsval \<Rightarrow> jsval"

datatype log_entry =
    StateUpdated document document jsval
  | RestoreFailed js_error
  | UncaughtInTimer js_error

record app_state =
  state :: document
  subscribers :: "callback list"
  middlewares :: "middleware list"
  invoked :: "(callback \<times> document \<times> document) list"
  console :: "log_entry list"
  hostname :: string
  clock :: nat
  timers :: "(nat \<times> int) list"
  storage :: "string option"

definition initial_state :: document where
  "initial_state =
     [(''currentSection'', Str ''home''),
      (''user'', Null),
      (''notifications'', Arr []),
      (''loading'', Bool False),
      (''formData'', Obj []),
      (''stats'', Obj [(''projects'', Num 0), (''components'', Num 0), (''satisfaction'', Num 0)])]"

text \<open>The constructor, in an environment with the given host name, clock and storage.\<close>

definition new_AppState :: "string \<Rightarrow> nat \<Rightarrow> string option \<Rightarrow> app_state" where
  "new_AppState host t item =
     \<lparr>state = initial_state, subscribers = [], middlewares = [], invoked = [], console = [],
      hostname = host, clock = t, timers = [], storage = item\<rparr>"

text \<open>\<open>subscribe\<close> returns the unsubscribe closure together with the updated store.\<close>

definition unsubscribe :: "callback \<Rightarrow> app_state \<Rightarrow> app_state" where
  "unsubscribe cb w = w\<lparr>subscribers := filter (\<lambda>sub. sub \<noteq> cb) (subscribers w)\<rparr>"

definition subscribe :: "callback \<Rightarrow> app_state \<Rightarrow> (app_state \<Rightarrow> app_state) \<times> app_state" where
  "subscribe cb w = (unsubscribe cb, w\<lparr>subscribers := subscribers w @ [cb]\<rparr>)"

definition use :: "middleware \<Rightarrow> app_state \<Rightarrow> app_state" where
  "use m w = w\<lparr>middlewares := middlewares w @ [m]\<rparr>"

definition getState :: "app_state \<Rightarrow> document" where
  "getState w = state w"

definition isDevelopment :: "app_state \<Rightarrow> bool" where
  "isDevelopment w \<longleftrightarrow>
     hostname w = ''localhost'' \<or> hostname w = ''127.0.0.1'' \<or> hostname w = ''''"

text \<open>
  \<open>setState\<close>: the \<open>forEach\<close> over the middlewares with the mutable
  \<open>processedUpdates\<close>, the merge, the \<open>forEach\<close> over the subscribers, the log.
\<close>

definition apply_middleware :: "document \<Rightarrow> jsval \<Rightarrow> middleware \<Rightarrow> jsval" where
  "apply_middleware prevState processedUpdates m =
     (let r = m prevState processedUpdates in if truthy r then r else processedUpdates)"

definition notify :: "document \<Rightarrow> document \<Rightarrow> app_state \<Rightarrow> app_state" where
  "notify cur prev w =
     w\<lparr>invoked := foldl (\<lambda>tr cb. tr @ [(cb, cur, prev)]) (invoked w) (subscribers w)\<rparr>"

definition setState :: "jsval \<Rightarrow> app_state \<Rightarrow> app_state" where
  "setState updates w =
     (let prevState = state w;
          processedUpdates = foldl (apply_middleware prevState) updates (middlewares w);
          w1 = w\<lparr>state := merge_props (state w) processedUpdates\<rparr>;
          w2 = notify (state w1) prevState w1
      in if isDevelopment w2
         then w2\<lparr>console := console w2 @ [StateUpdated prevState (state w2) processedUpdates]\<rparr>
         else w2)"

text \<open>The logging middleware of the development build; its console output is left out.\<close>

definition loggingMiddleware :: middleware where
  "loggingMiddleware prevState updates = updates"

definition navigate :: "string \<Rightarrow> app_state \<Rightarrow> app_state" where
  "navigate section w = setState (Obj [(''currentSection'', Str section)]) w"

definition setLoading :: "bool \<Rightarrow> app_state \<Rightarrow> app_state" where
  "setLoading loading w = setState (Obj [(''loading'', Bool loading)]) w"

text \<open>
  The pending update after the first \<open>i\<close> middlewares, as the specification words it:
  it starts as the caller's partial; middleware number \<open>i\<close> is given the previous
  document and the pending update and returns a partial, which replaces the pending one,
  or nothing (\<open>undefined\<close>), which leaves it as it is.
\<close>

fun spec_pending :: "middleware list \<Rightarrow> document \<Rightarrow> jsval \<Rightarrow> nat \<Rightarrow> jsval" where
  "spec_pending ms prev u 0 = u"
| "spec_pending ms prev u (Suc i) =
     (let p = spec_pending ms prev u i
      in case (ms ! i) prev p of Undefined \<Rightarrow> p | r \<Rightarrow> r)"

text \<open>
  \<open>[...v]\<close>: the elements of an array, the characters of a string, a \<open>TypeError\<close>
  for a value that is not iterable.
\<close>

fun spread_iterable :: "jsval \<Rightarrow> js_error + jsval list" where
  "spread_iterable (Arr xs) = Inr xs"
| "spread_iterable (Str s) = Inr (map (\<lambda>c. Str [c]) s)"
| "spread_iterable Undefined = Inl TypeError"
| "spread_iterable Null = Inl TypeError"
| "spread_iterable (Bool b) = Inl TypeError"
| "spread_iterable (Num n) = Inl TypeError"
| "spread_iterable (Obj kvs) = Inl TypeError"

text \<open>
  \<open>addNotification\<close>: the id and the timestamp are the clock reading of the call; the
  one-shot callback is queued for \<open>duration\<close> milliseconds later.
\<close>

definition addNotification :: "string \<Rightarrow> string \<Rightarrow> nat \<Rightarrow> app_state \<Rightarrow> js_error + app_state" where
  "addNotification message type duration w =
     (let notification =
            Obj [(''id'', Num (int (clock w))),
                 (''message'', Str message),
                 (''type'', Str type),
                 (''duration'', Num (int duration)),
                 (''timestamp'', Num (int (clock w)))]
      in case spread_iterable (obj_get ''notifications'' (state w)) of
           Inl e \<Rightarrow> Inl e
         | Inr ns \<Rightarrow>
             (let w1 = setState (Obj [(''notifications'', Arr (ns @ [notification]))]) w
              in Inr (w1\<lparr>timers := timers w1 @ [(clock w1 + duration, int (clock w))]\<rparr>)))"

text \<open>
  \<open>notifications.filter((n) => n.id !== id)\<close>, element by element; reading \<open>n.id\<close>
  raises on \<open>null\<close> and \<open>undefined\<close>.
\<close>

fun keep_other_ids :: "int \<Rightarrow> jsval list \<Rightarrow> js_error + jsval list" where
  "keep_other_ids i [] = Inr []"
| "keep_other_ids i (n # ns) =
     (case get_prop n ''id'' of
        Inl e \<Rightarrow> Inl e
      | Inr v \<Rightarrow>
          (case keep_other_ids i ns of
             Inl e \<Rightarrow> Inl e
           | Inr kept \<Rightarrow> Inr (if v \<noteq> Num i then n # kept else kept)))"

definition removeNotification :: "int \<Rightarrow> app_state \<Rightarrow> js_error + app_state" where
  "removeNotification i w =
     (case obj_get ''notifications'' (state w) of
        Arr ns \<Rightarrow>
          (case keep_other_ids i ns of
             Inl e \<Rightarrow> Inl e
           | Inr notifications \<Rightarrow> Inr (setState (Obj [(''notifications'', Arr notifications)]) w))
      | _ \<Rightarrow> Inl TypeError)"

text \<open>
  The event loop's side of \<open>setTimeout\<close>: when \<open>d\<close> milliseconds pass, the callbacks
  that fall due run in the order of their due times (queue order among equals), each at
  its due time; an error a callback raises is reported and the loop goes on.
\<close>

definition fire :: "app_state \<Rightarrow> nat \<times> int \<Rightarrow> app_state" where
  "fire w t =
     (let w1 = w\<lparr>clock := max (clock w) (fst t)\<rparr>
      in case removeNotification (snd t) w1 of
           Inl e \<Rightarrow> w1\<lparr>console := console w1 @ [UncaughtInTimer e]\<rparr>
         | Inr w2 \<Rightarrow> w2)"

definition advance :: "nat \<Rightarrow> app_state \<Rightarrow> app_state" where
  "advance d w =
     (let target = clock w + d;
          due = sort_key fst (filter (\<lambda>t. fst t \<le> target) (timers w));
          w1 = foldl fire (w\<lparr>timers := filter (\<lambda>t. \<not> fst t \<le> target) (timers w)\<rparr>) due
      in w1\<lparr>clock := target\<rparr>)"

text \<open>
  \<open>restore\<close>. Reading the item from local storage is taken to succeed (\<open>None\<close>
  is the \<open>null\<close> of an absent item). \<open>JSON.parse\<close> is the runtime's: it is a
  parameter, \<open>None\<close> where it raises its \<open>SyntaxError\<close>. The \<open>forEach\<close> over the
  keys fills \<open>stateToRestore\<close>; whatever the \<open>try\<close> block raises is logged by
  \<open>console.warn\<close>.
\<close>

fun collect_keys :: "jsval \<Rightarrow> string list \<Rightarrow> document \<Rightarrow> js_error + document" where
  "collect_keys parsedState [] stateToRestore = Inr stateToRestore"
| "collect_keys parsedState (key # keys) stateToRestore =
     (case get_prop parsedState key of
        Inl e \<Rightarrow> Inl e
      | Inr v \<Rightarrow>
          collect_keys parsedState keys
            (if v \<noteq> Undefined then AList.update key v stateToRestore else stateToRestore))"

definition restore :: "(string \<Rightarrow> jsval option) \<Rightarrow> string list \<Rightarrow> app_state \<Rightarrow> app_state" where
  "restore json_parse keys w =
     (case storage w of
        None \<Rightarrow> w
      | Some persistedState \<Rightarrow>
          if persistedState = [] then w
          else
            (case json_parse persistedState of
               None \<Rightarrow> w\<lparr>console := console w @ [RestoreFailed SyntaxError]\<rparr>
             | Some parsedState \<Rightarrow>
                 (case collect_keys parsedState keys [] of
                    Inl e \<Rightarrow> w\<lparr>console := console w @ [RestoreFailed e]\<rparr>
                  | Inr stateToRestore \<Rightarrow> setState (Obj stateToRestore) w)))"

definition reset :: "app_state \<Rightarrow> app_state" where
  "reset w = notify initial_state [] (w\<lparr>state := initial_state\<rparr>)"

section \<open>The form manager (\<open>FormManager\<close>)\<close>

text \<open>
  A form control with the attributes the manager reads, its class list, and the text of
  the \<open>.error-message\<close> element kept beside it (\<open>None\<close> when there is none; each
  control is taken to sit in a container of its own). \<open>el_default\<close> is the value
  \<open>form.reset()\<close> puts back. The error text holds the value assigned to
  \<open>textContent\<close>, before the DOM turns it into a string.
\<close>

record element =
  el_name :: string
  el_value :: string
  el_default :: string
  el_required :: bool
  el_type :: string
  el_pattern :: string
  el_classes :: "string list"
  el_error :: "jsval option"

text \<open>
  A validator is called with the value and the element; it returns its result
  (\<open>Inr\<close>, \<open>true\<close> meaning valid) or throws a value (\<open>Inl\<close>). A submit handler
  is called with the form data and the form id; \<open>Some e\<close> is a handler that throws, or
  whose promise rejects with, \<open>e\<close>. The wait at \<open>await\<close> is not modelled: a
  submission runs as one step.
\<close>

type_synonym validator = "string \<Rightarrow> element \<Rightarrow> jsval + jsval"
type_synonym handler = "(string \<times> string) list \<Rightarrow> string \<Rightarrow> jsval option"

record field =
  element :: element
  validators :: "validator list"
  isValid :: bool
  errors :: "jsval list"

record submit_button =
  disabled :: bool
  textContent :: string
  originalText :: "string option"

record form_config =
  form_fields :: "(string \<times> field) list"
  onSubmit :: handler
  resetOnSubmit :: bool
  submitBtn :: "submit_button option"

text \<open>The form element handed to \<open>registerForm\<close>, and the options read from it.\<close>

record form_element =
  form_id :: string
  form_controls :: "element list"
  form_button :: "submit_button option"

record form_options =
  opt_onSubmit :: "handler option"
  opt_resetOnSubmit :: "bool option"

text \<open>
  The manager with what it writes outside itself: the calls of \<open>showSuccess\<close> and
  \<open>showError\<close> (severity and message), the value last given to
  \<open>window.appState.setLoading\<close>, and the calls of submit handlers.
\<close>

record form_manager =
  forms :: "(string \<times> form_config) list"
  shown :: "(string \<times> jsval) list"
  app_loading :: "bool option"
  submitted :: "(string \<times> (string \<times> string) list) list"

text \<open>
  The regular expression engine is the runtime's: \<open>rx_error p\<close> is the error
  \<open>new RegExp(p)\<close> throws (\<open>None\<close> when \<open>p\<close> compiles), \<open>rx_test p s\<close> is
  \<open>new RegExp(p).test(s)\<close>.
\<close>

record regex_engine =
  rx_error :: "string \<Rightarrow> jsval option"
  rx_test :: "string \<Rightarrow> string \<Rightarrow> bool"

text \<open>\<open>trim\<close> on ASCII strings: the white space and line ends it strips.\<close>

definition is_space :: "char \<Rightarrow> bool" where
  "is_space c \<longleftrightarrow> c \<in> set [CHR '' '', CHR 0x09, CHR 0x0A, CHR 0x0B, CHR 0x0C, CHR 0x0D]"

definition trim :: "string \<Rightarrow> string" where
  "trim s = rev (dropWhile is_space (rev (dropWhile is_space s)))"

definition emailRegex :: string where
  "emailRegex = ''^[^'' @ [CHR 0x5C] @ ''s@]+@[^'' @ [CHR 0x5C] @ ''s@]+'' @ [CHR 0x5C] @
     ''.[^'' @ [CHR 0x5C] @ ''s@]+$''"

text \<open>The default validators \<open>getFieldValidators\<close> attaches.\<close>

definition required :: validator where
  "required value el =
     Inr (if value \<noteq> [] \<and> trim value \<noteq> [] then Bool True else Str ''This field is required'')"

definition email :: "regex_engine \<Rightarrow> validator" where
  "email rx value el =
     (if value = [] then Inr (Bool True)
      else Inr (if rx_test rx emailRegex value then Bool True
                else Str ''Please enter a valid email address''))"

definition pattern :: "regex_engine \<Rightarrow> string \<Rightarrow> validator" where
  "pattern rx p value el =
     (if value = [] then Inr (Bool True)
      else case rx_error rx p of
             Some e \<Rightarrow> Inl e
           | None \<Rightarrow> Inr (if rx_test rx p value then Bool True
                         else Str ''Please enter a valid value''))"

definition getFieldValidators :: "regex_engine \<Rightarrow> element \<Rightarrow> validator list" where
  "getFieldValidators rx fld =
     (if el_required fld then [required] else []) @
     (if el_type fld = ''email'' then [email rx] else []) @
     (if el_pattern fld \<noteq> [] then [pattern rx (el_pattern fld)] else [])"

definition addField :: "string \<Rightarrow> string \<Rightarrow> element \<Rightarrow> validator list \<Rightarrow> form_manager \<Rightarrow> form_manager" where
  "addField formId fieldName el vs fm =
     (case map_of (forms fm) formId of
        None \<Rightarrow> fm
      | Some config \<Rightarrow>
          fm\<lparr>forms := AList.update formId
                (config\<lparr>form_fields := AList.update fieldName
                    \<lparr>element = el, validators = vs, isValid = True, errors = []\<rparr> (form_fields config)\<rparr>)
                (forms fm)\<rparr>)"

definition discoverFields :: "regex_engine \<Rightarrow> string \<Rightarrow> element list \<Rightarrow> form_manager \<Rightarrow> form_manager" where
  "discoverFields rx formId controls fm =
     foldl (\<lambda>m fld. if el_name fld \<noteq> []
                     then addField formId (el_name fld) fld (getFieldValidators rx fld) m
                     else m) fm controls"

text \<open>
  The default handler waits, stores the data in the store and succeeds; its writes to
  the store are outside this record.
\<close>

definition defaultSubmitHandler :: handler where
  "defaultSubmitHandler formData formId = None"

definition registerForm :: "regex_engine \<Rightarrow> form_element \<Rightarrow> form_options \<Rightarrow> form_manager \<Rightarrow> form_manager" where
  "registerForm rx form options fm =
     (if form_id form = [] then fm
      else
        (let formConfig =
               \<lparr>form_fields = [],
                onSubmit = (case opt_onSubmit options of Some h \<Rightarrow> h | None \<Rightarrow> defaultSubmitHandler),
                resetOnSubmit = (opt_resetOnSubmit options \<noteq> Some False),
                submitBtn = form_button form\<rparr>
         in discoverFields rx (form_id form) (form_controls form)
              (fm\<lparr>forms := AList.update (form_id form) formConfig (forms fm)\<rparr>)))"

definition addValidator :: "string \<Rightarrow> string \<Rightarrow> validator \<Rightarrow> form_manager \<Rightarrow> form_manager" where
  "addValidator formId fieldName v fm =
     (case map_of (forms fm) formId of
        None \<Rightarrow> fm
      | Some config \<Rightarrow>
          (case map_of (form_fields config) fieldName of
             None \<Rightarrow> fm
           | Some fld \<Rightarrow>
               fm\<lparr>forms := AList.update formId
                     (config\<lparr>form_fields := AList.update fieldName
                         (fld\<lparr>validators := validators fld @ [v]\<rparr>) (form_fields config)\<rparr>)
                     (forms fm)\<rparr>))"

definition updateFieldUI :: "element \<Rightarrow> bool \<Rightarrow> jsval list \<Rightarrow> element" where
  "updateFieldUI el valid errs =
     el\<lparr>el_classes := filter (\<lambda>c. c \<noteq> ''error'' \<and> c \<noteq> ''valid'') (el_classes el)
                        @ [if valid then ''valid'' else ''error''],
        el_error := (case errs of [] \<Rightarrow> None | e # _ \<Rightarrow> Some e)\<rparr>"

text \<open>The \<open>forEach\<close> over a field's validators, with the local \<open>errors\<close> array.\<close>

fun run_validators :: "validator list \<Rightarrow> string \<Rightarrow> element \<Rightarrow> jsval list \<Rightarrow> jsval + jsval list" where
  "run_validators [] value el errs = Inr errs"
| "run_validators (v # vs) value el errs =
     (case v value el of
        Inl e \<Rightarrow> Inl e
      | Inr result \<Rightarrow>
          run_validators vs value el (if result \<noteq> Bool True then errs @ [result] else errs))"

text \<open>
  A method that may throw returns the thrown value or its result, and the manager as
  the method left it.
\<close>

definition validateField :: "string \<Rightarrow> string \<Rightarrow> form_manager \<Rightarrow> (jsval + bool) \<times> form_manager" where
  "validateField formId fieldName fm =
     (case map_of (forms fm) formId of
        None \<Rightarrow> (Inr True, fm)
      | Some config \<Rightarrow>
          (case map_of (form_fields config) fieldName of
             None \<Rightarrow> (Inr True, fm)
           | Some fld \<Rightarrow>
               (case run_validators (validators fld) (el_value (element fld)) (element fld) [] of
                  Inl e \<Rightarrow> (Inl e, fm)
                | Inr errs \<Rightarrow>
                    (let fld' = fld\<lparr>isValid := (errs = []), errors := errs,
                                    element := updateFieldUI (element fld) (errs = []) errs\<rparr>
                     in (Inr (errs = []),
                         fm\<lparr>forms := AList.update formId
                               (config\<lparr>form_fields := AList.update fieldName fld' (form_fields config)\<rparr>)
                               (forms fm)\<rparr>)))))"

fun validate_fields :: "string \<Rightarrow> string list \<Rightarrow> bool \<Rightarrow> form_manager \<Rightarrow> (jsval + bool) \<times> form_manager" where
  "validate_fields formId [] ok fm = (Inr ok, fm)"
| "validate_fields formId (fieldName # rest) ok fm =
     (case validateField formId fieldName fm of
        (Inl e, fm') \<Rightarrow> (Inl e, fm')
      | (Inr fieldValid, fm') \<Rightarrow> validate_fields formId rest (ok \<and> fieldValid) fm')"

definition validateForm :: "string \<Rightarrow> form_manager \<Rightarrow> (jsval + bool) \<times> form_manager" where
  "validateForm formId fm =
     (case map_of (forms fm) formId of
        None \<Rightarrow> (Inr False, fm)
      | Some config \<Rightarrow> validate_fields formId (map fst (form_fields config)) True fm)"

definition getFormData :: "string \<Rightarrow> form_manager \<Rightarrow> (string \<times> string) list" where
  "getFormData formId fm =
     (case map_of (forms fm) formId of
        None \<Rightarrow> []
      | Some config \<Rightarrow> map (\<lambda>(fieldName, fld). (fieldName, el_value (element fld))) (form_fields config))"

text \<open>
  \<open>resetForm\<close>: the controls take their default values again and every field is
  marked valid. The copy of the form data it clears in the store is outside this record.
\<close>

definition resetForm :: "string \<Rightarrow> form_manager \<Rightarrow> form_manager" where
  "resetForm formId fm =
     (case map_of (forms fm) formId of
        None \<Rightarrow> fm
      | Some config \<Rightarrow>
          fm\<lparr>forms := AList.update formId
                (config\<lparr>form_fields := map (\<lambda>(fieldName, fld).
                    (fieldName,
                     fld\<lparr>isValid := True, errors := [],
                         element := updateFieldUI
                           ((element fld)\<lparr>el_value := el_default (element fld)\<rparr>) True []\<rparr>))
                    (form_fields config)\<rparr>)
                (forms fm)\<rparr>)"

definition setFormLoading :: "string \<Rightarrow> bool \<Rightarrow> form_manager \<Rightarrow> form_manager" where
  "setFormLoading formId loading fm =
     (case map_of (forms fm) formId of
        None \<Rightarrow> fm
      | Some config \<Rightarrow>
          (let btn' =
                 (case submitBtn config of
                    None \<Rightarrow> None
                  | Some b \<Rightarrow>
                      (let txt = (if loading then ''Submitting...''
                                  else (case originalText b of
                                          Some t \<Rightarrow> if t \<noteq> [] then t else ''Submit''
                                        | None \<Rightarrow> ''Submit''))
                       in Some (b\<lparr>disabled := loading, textContent := txt,
                                  originalText := (case originalText b of
                                                     Some t \<Rightarrow> if t \<noteq> [] then Some t else Some txt
                                                   | None \<Rightarrow> Some txt)\<rparr>)))
           in fm\<lparr>forms := AList.update formId (config\<lparr>submitBtn := btn'\<rparr>) (forms fm),
                 app_loading := Some loading\<rparr>))"

definition showSuccess :: "jsval \<Rightarrow> form_manager \<Rightarrow> form_manager" where
  "showSuccess message fm = fm\<lparr>shown := shown fm @ [(''success'', message)]\<rparr>"

definition showError :: "jsval \<Rightarrow> form_manager \<Rightarrow> form_manager" where
  "showError message fm = fm\<lparr>shown := shown fm @ [(''error'', message)]\<rparr>"

text \<open>
  \<open>handleSubmit\<close>. \<open>try_submit\<close> is the \<open>try\<close> block: it ends normally (\<open>None\<close>,
  the early \<open>return\<close> of an invalid form included) or with a thrown value.
  \<open>catch_submit\<close> is the \<open>catch\<close> block, which itself raises when reading
  \<open>error.message\<close> does. The \<open>finally\<close> block runs in every case; the promise
  \<open>handleSubmit\<close> returns is fulfilled, or rejected with what the \<open>catch\<close> block
  raised.
\<close>

datatype completion = Fulfilled | Rejected js_error

definition try_submit :: "string \<Rightarrow> form_config \<Rightarrow> form_manager \<Rightarrow> jsval option \<times> form_manager" where
  "try_submit formId config fm =
     (case validateForm formId fm of
        (Inl e, fm1) \<Rightarrow> (Some e, fm1)
      | (Inr False, fm1) \<Rightarrow> (None, showError (Str ''Please fix the errors in the form'') fm1)
      | (Inr True, fm1) \<Rightarrow>
          (let formData = getFormData formId fm1;
               fm2 = fm1\<lparr>submitted := submitted fm1 @ [(formId, formData)]\<rparr>
           in case onSubmit config formData formId of
                Some e \<Rightarrow> (Some e, fm2)
              | None \<Rightarrow>
                  (let fm3 = showSuccess (Str ''Form submitted successfully!'') fm2
                   in (None, if resetOnSubmit config then resetForm formId fm3 else fm3))))"

definition catch_submit :: "jsval \<Rightarrow> form_manager \<Rightarrow> js_error option \<times> form_manager" where
  "catch_submit error fm =
     (case get_prop error ''message'' of
        Inl e \<Rightarrow> (Some e, fm)
      | Inr m \<Rightarrow>
          (None, showError (if truthy m then m
                            else Str ''An error occurred while submitting the form'') fm))"

definition handleSubmit :: "string \<Rightarrow> form_manager \<Rightarrow> completion \<times> form_manager" where
  "handleSubmit formId fm =
     (case map_of (forms fm) formId of
        None \<Rightarrow> (Fulfilled, fm)
      | Some config \<Rightarrow>
          (case try_submit formId config (setFormLoading formId True fm) of
             (None, fm1) \<Rightarrow> (Fulfilled, setFormLoading formId False fm1)
           | (Some error, fm1) \<Rightarrow>
               (case catch_submit error fm1 of
                  (None, fm2) \<Rightarrow> (Fulfilled, setFormLoading formId False fm2)
                | (Some e, fm2) \<Rightarrow> (Rejected e, setFormLoading formId False fm2))))"

text \<open>
  \<open>minLength\<close>, one of the validators the manager offers for \<open>addValidator\<close>, and
  the field a form holds under a name (\<open>forms.get(formId).fields.get(fieldName)\<close>).
\<close>

definition minLength :: "nat \<Rightarrow> validator" where
  "minLength n value el =
     Inr (if n \<le> length value then Bool True
          else Str (''Minimum length is '' @ show_nat n @ '' characters''))"

definition field_of :: "string \<Rightarrow> string \<Rightarrow> form_manager \<Rightarrow> field option" where
  "field_of formId fieldName fm =
     (case map_of (forms fm) formId of
        None \<Rightarrow> None
      | Some config \<Rightarrow> map_of (form_fields config) fieldName)"

text \<open>
  The errors of a field as the code collects them: the results other than \<open>true\<close> of
  all its validators, in attachment order.
\<close>

definition all_errors :: "field \<Rightarrow> jsval list" where
  "all_errors fld =
     filter (\<lambda>r. r \<noteq> Bool True)
       (map (\<lambda>v. projr (v (el_value (element fld)) (element fld))) (validators fld))"

section \<open>The static file servers\<close>

text \<open>
  A request as the handlers read it, and the response they write. Node's \<open>url\<close>,
  \<open>path\<close> and \<open>fs\<close> modules are parameters: \<open>pathname_of u\<close> is
  \<open>url.parse(u, true).pathname\<close>, \<open>file_exists p\<close> says whether \<open>fs.access\<close>
  succeeds, and \<open>read_file p\<close> is the outcome of \<open>fs.readFile\<close>, the error's message
  (\<open>Inl\<close>) or the content.
\<close>

record request =
  req_method :: string
  req_url :: string

record response =
  status :: nat
  headers :: "(string \<times> string) list"
  body :: string

record node_env =
  pathname_of :: "string \<Rightarrow> string"
  path_join :: "string \<Rightarrow> string \<Rightarrow> string"
  path_extname :: "string \<Rightarrow> string"
  file_exists :: "string \<Rightarrow> bool"
  read_file :: "string \<Rightarrow> string + string"

definition html_line :: "nat \<Rightarrow> string \<Rightarrow> string" where
  "html_line n s = replicate n (CHR '' '') @ s @ [CHR 0x0A]"

definition toLowerCase :: "string \<Rightarrow> string" where
  "toLowerCase s =
     map (\<lambda>c. if (65::nat) \<le> of_char c \<and> of_char c \<le> (90::nat)
              then char_of (of_char c + (32::nat)) else c) s"

text \<open>Both servers serve the index document for the root path.\<close>

definition index_default :: "string \<Rightarrow> string" where
  "index_default p = (if p = ''/'' then ''/index.html'' else p)"

subsection \<open>\<open>DevServer\<close> of the monolithic template\<close>

definition mimeTypes :: "(string \<times> string) list" where
  "mimeTypes =
     [(''.html'', ''text/html''),
      (''.css'', ''text/css''),
      (''.js'', ''application/javascript''),
      (''.json'', ''application/json''),
      (''.png'', ''image/png''),
      (''.jpg'', ''image/jpeg''),
      (''.jpeg'', ''image/jpeg''),
      (''.gif'', ''image/gif''),
      (''.svg'', ''image/svg+xml''),
      (''.ico'', ''image/x-icon''),
      (''.woff'', ''font/woff''),
      (''.woff2'', ''font/woff2''),
      (''.ttf'', ''font/ttf''),
      (''.eot'', ''font/eot'')]"

definition getMimeType :: "node_env \<Rightarrow> string \<Rightarrow> string" where
  "getMimeType env filePath =
     (case map_of mimeTypes (toLowerCase (path_extname env filePath)) of
        Some t \<Rightarrow> t
      | None \<Rightarrow> ''text/plain'')"

definition not_found_page :: "string \<Rightarrow> string" where
  "not_found_page pathname =
     [CHR 0x0A] @
     html_line 20 ''<html>'' @
     html_line 24 ''<head><title>404 - Not Found</title></head>'' @
     html_line 24 ''<body>'' @
     html_line 28 ''<h1>404 - File Not Found</h1>'' @
     html_line 28 (''<p>The requested file <code>'' @ pathname @ ''</code> was not found.</p>'') @
     html_line 28 (''<p><a href='' @ [CHR 0x22] @ ''/'' @ [CHR 0x22] @ ''>'' @
                   [CHR 0xE2, CHR 0x86, CHR 0x90] @ '' Back to Home</a></p>'') @
     html_line 24 ''</body>'' @
     html_line 20 ''</html>'' @
     replicate 16 (CHR '' '')"

definition server_error_page :: "string \<Rightarrow> string" where
  "server_error_page message =
     [CHR 0x0A] @
     html_line 24 ''<html>'' @
     html_line 28 ''<head><title>500 - Server Error</title></head>'' @
     html_line 28 ''<body>'' @
     html_line 32 ''<h1>500 - Internal Server Error</h1>'' @
     html_line 32 (''<p>Error reading file: '' @ message @ ''</p>'') @
     html_line 28 ''</body>'' @
     html_line 24 ''</html>'' @
     replicate 20 (CHR '' '')"

definition dev_headers :: "(string \<times> string) list" where
  "dev_headers =
     [(''Access-Control-Allow-Origin'', ''*''),
      (''Access-Control-Allow-Methods'', ''GET, POST, OPTIONS''),
      (''Access-Control-Allow-Headers'', ''Content-Type''),
      (''Cache-Control'', ''no-cache, no-store, must-revalidate''),
      (''Pragma'', ''no-cache''),
      (''Expires'', ''0'')]"

definition handleRequest :: "node_env \<Rightarrow> string \<Rightarrow> request \<Rightarrow> response" where
  "handleRequest env projectRoot req =
     (if req_method req = ''OPTIONS'' then \<lparr>status = 200, headers = dev_headers, body = []\<rparr>
      else
        (let pathname = index_default (pathname_of env (req_url req));
             filePath = path_join env projectRoot pathname
         in if \<not> file_exists env filePath
            then \<lparr>status = 404, headers = dev_headers @ [(''Content-Type'', ''text/html'')],
                  body = not_found_page pathname\<rparr>
            else
              (case read_file env filePath of
                 Inl message \<Rightarrow>
                   \<lparr>status = 500, headers = dev_headers @ [(''Content-Type'', ''text/html'')],
                    body = server_error_page message\<rparr>
               | Inr data \<Rightarrow>
                   \<lparr>status = 200,
                    headers = dev_headers @ [(''Content-Type'', getMimeType env filePath)],
                    body = data\<rparr>)))"

subsection \<open>The server of the MVC demo\<close>

definition contentTypes :: "(string \<times> string) list" where
  "contentTypes =
     [(''.html'', ''text/html; charset=utf-8''),
      (''.css'', ''text/css; charset=utf-8''),
      (''.js'', ''application/javascript; charset=utf-8'')]"

definition mvc_server :: "node_env \<Rightarrow> string \<Rightarrow> request \<Rightarrow> response" where
  "mvc_server env publicDir req =
     (let urlPath = index_default (req_url req);
          filePath = path_join env publicDir urlPath;
          ext = path_extname env filePath
      in case read_file env filePath of
           Inl message \<Rightarrow>
             \<lparr>status = 404, headers = [(''Content-Type'', ''text/plain; charset=utf-8'')],
              body = ''Not found''\<rparr>
         | Inr content \<Rightarrow>
             \<lparr>status = 200,
              headers = [(''Content-Type'',
                          (case map_of contentTypes ext of
                             Some t \<Rightarrow> t
                           | None \<Rightarrow> ''application/octet-stream''))],
              body = content\<rparr>)"

section \<open>Example inputs\<close>

definition mw_nothing :: middleware where
  "mw_nothing prev u = Undefined"

definition mw_stamp :: middleware where
  "mw_stamp prev u = Obj (own_props u @ [(''user'', Str ''ann'')])"

definition example_store :: app_state where
  "example_store =
     use mw_stamp (use mw_nothing (use loggingMiddleware
       (snd (subscribe 2 (snd (subscribe 1 (new_AppState ''example.org'' 0 None)))))))"

definition twice_subscribed :: app_state where
  "twice_subscribed = snd (subscribe 1 (snd (subscribe 1 (new_AppState ''example.org'' 0 None))))"


definition first_unsubscribe :: "app_state \<Rightarrow> app_state" where
  "first_unsubscribe = fst (subscribe 1 (new_AppState ''example.org'' 0 None))"

text \<open>
  A stand-in for \<open>JSON.parse\<close> on the payloads of the examples: the empty object
  parses; the empty string and a truncated object are malformed.
\<close>

definition example_parse :: "string \<Rightarrow> jsval option" where
  "example_parse s = (if s = ''{}'' then Some (Obj []) else None)"

definition then_add :: "string \<Rightarrow> string \<Rightarrow> nat \<Rightarrow> js_error + app_state \<Rightarrow> js_error + app_state" where
  "then_add message type duration r =
     (case r of Inl e \<Rightarrow> Inl e | Inr w \<Rightarrow> addNotification message type duration w)"

text \<open>Three notifications added within one clock tick, and one tick apart.\<close>

definition three_in_one_tick :: "js_error + app_state" where
  "three_in_one_tick =
     then_add ''third'' ''info'' 300
       (then_add ''second'' ''info'' 200
         (addNotification ''first'' ''info'' 100 (new_AppState ''example.org'' 1000 None)))"

definition three_in_three_ticks :: "js_error + app_state" where
  "three_in_three_ticks =
     then_add ''third'' ''info'' 300
       (map_sum id (advance 1)
         (then_add ''second'' ''info'' 200
           (map_sum id (advance 1)
             (addNotification ''first'' ''info'' 100 (new_AppState ''example.org'' 1000 None)))))"

definition notification_messages :: "app_state \<Rightarrow> jsval list" where
  "notification_messages w =
     (case obj_get ''notifications'' (state w) of
        Arr ns \<Rightarrow> map (\<lambda>n. case n of Obj kvs \<Rightarrow> obj_get ''message'' kvs | _ \<Rightarrow> Undefined) ns
      | _ \<Rightarrow> [])"

text \<open>
  A contact form with one required text field \<open>name\<close>, left empty, on which
  \<open>minLength 3\<close> is added; and the same form with the field filled in and a submit
  handler whose promise rejects without a reason. The examples use no pattern: the
  engine is one where every pattern compiles and matches only itself.
\<close>

definition example_engine :: regex_engine where
  "example_engine = \<lparr>rx_error = (\<lambda>p. None), rx_test = (\<lambda>p s. p = s)\<rparr>"

definition name_control :: element where
  "name_control =
     \<lparr>el_name = ''name'', el_value = '''', el_default = '''', el_required = True,
      el_type = ''text'', el_pattern = '''', el_classes = [], el_error = None\<rparr>"

definition empty_manager :: form_manager where
  "empty_manager = \<lparr>forms = [], shown = [], app_loading = None, submitted = []\<rparr>"

definition example_manager :: form_manager where
  "example_manager =
     addValidator ''contact'' ''name'' (minLength 3)
       (registerForm example_engine
          \<lparr>form_id = ''contact'', form_controls = [name_control], form_button = None\<rparr>
          \<lparr>opt_onSubmit = None, opt_resetOnSubmit = None\<rparr>
          empty_manager)"

definition rejecting_manager :: form_manager where
  "rejecting_manager =
     registerForm example_engine
       \<lparr>form_id = ''contact'', form_controls = [name_control\<lparr>el_value := ''Ann''\<rparr>],
        form_button = None\<rparr>
       \<lparr>opt_onSubmit = Some (\<lambda>formData formId. Some Undefined), opt_resetOnSubmit = None\<rparr>
       empty_manager"

text \<open>
  Two disks for the examples, with paths joined by concatenation and the path name cut
  at the query: one with no file at all, one where the file exists and reading it
  fails.
\<close>

definition empty_disk :: node_env where
  "empty_disk =
     \<lparr>pathname_of = takeWhile (\<lambda>c. c \<noteq> CHR ''?''),
      path_join = (\<lambda>a b. a @ b),
      path_extname = (\<lambda>p. ''''),
      file_exists = (\<lambda>p. False),
      read_file = (\<lambda>p. Inl ''ENOENT: no such file or directory'')\<rparr>"

definition unreadable_disk :: node_env where
  "unreadable_disk =
     \<lparr>pathname_of = takeWhile (\<lambda>c. c \<noteq> CHR ''?''),
      path_join = (\<lambda>a b. a @ b),
      path_extname = (\<lambda>p. ''''),
      file_exists = (\<lambda>p. True),
      read_file = (\<lambda>p. Inl ''EISDIR: illegal operation on a directory, read'')\<rparr>"

definition get_missing :: request where
  "get_missing = \<lparr>req_method = ''GET'', req_url = ''/missing.css''\<rparr>"

section \<open>Properties of the store\<close>

lemma notify_invoked:
  "foldl (\<lambda>tr cb. tr @ [(cb, cur, prev)]) tr0 subs = tr0 @ map (\<lambda>cb. (cb, cur, prev)) subs"
  by (induction subs arbitrary: tr0) simp_all

lemma invoked_setState:
  "invoked (setState u w) =
     invoked w @ map (\<lambda>cb. (cb, state (setState u w), state w)) (subscribers w)"
  by (simp add: setState_def Let_def notify_def notify_invoked)

lemma map_of_foldl_update:
  "map_of (foldl (\<lambda>obj (k, v). AList.update k v obj) acc es) = map_of acc ++ map_of (rev es)"
proof (induction es arbitrary: acc)
  case Nil
  show ?case by simp
next
  case (Cons e es)
  obtain k v where e: "e = (k, v)" by (cases e)
  have "map_of (foldl (\<lambda>obj (k, v). AList.update k v obj) acc (e # es))
          = map_of (foldl (\<lambda>obj (k, v). AList.update k v obj) (AList.update k v acc) es)"
    by (simp add: e)
  also have "\<dots> = map_of (AList.update k v acc) ++ map_of (rev es)"
    by (rule Cons.IH)
  also have "\<dots> = (map_of acc ++ [k \<mapsto> v]) ++ map_of (rev es)"
    by (simp only: update_conv' map_add_upd map_add_empty)
  also have "\<dots> = map_of acc ++ map_of (rev (e # es))"
    by (simp only: e rev.simps map_of_append map_add_assoc map_of.simps fst_conv snd_conv)
  finally show ?case .
qed

lemma map_of_merge_props:
  "map_of (merge_props a b) = map_of a ++ map_of (rev (own_props b))"
  by (simp add: merge_props_def map_of_foldl_update)

lemma foldl_spec_pending:
  assumes "\<forall>m\<in>set ms. \<forall>d kvs. m d (Obj kvs) = Undefined \<or> (\<exists>kvs'. m d (Obj kvs) = Obj kvs')"
      and "\<exists>kvs. u = Obj kvs"
  shows "foldl (apply_middleware prev) u (take i ms) = spec_pending ms prev u (min i (length ms))
       \<and> (\<exists>kvs. spec_pending ms prev u (min i (length ms)) = Obj kvs)"
proof (induction i)
  case 0
  from assms(2) show ?case by simp
next
  case (Suc i)
  show ?case
  proof (cases "i < length ms")
    case True
    then have tk: "take (Suc i) ms = take i ms @ [ms ! i]"
      by (simp add: take_Suc_conv_app_nth)
    from Suc True obtain kvs where p: "spec_pending ms prev u i = Obj kvs"
      by (auto simp add: min_def)
    from True assms(1)
    have "(ms ! i) prev (Obj kvs) = Undefined \<or> (\<exists>kvs'. (ms ! i) prev (Obj kvs) = Obj kvs')"
      by simp
    with Suc True tk p show ?thesis
      by (auto simp add: apply_middleware_def Let_def min_def)
  next
    case False
    then have "min i (length ms) = length ms" "min (Suc i) (length ms) = length ms"
      by simp_all
    with Suc False show ?thesis by simp
  qed
qed

text \<open>
  C1. \<open>setState\<close> of a partial, with middlewares that each turn a partial into a
  partial or return nothing: the pending update is threaded through the middlewares in
  registration order, each given the previous document and the pending update; the
  final update is shallow-merged onto the document (the last value written to a key
  wins, other keys keep their value); then every subscriber is invoked, in subscription
  order, with the new document and the previous one. Registration and subscription
  append, so list order is the order of registration.
\<close>

theorem setState_pipeline:
  assumes "\<exists>kvs. updates = Obj kvs"
      and "\<forall>m\<in>set (middlewares w). \<forall>d kvs.
             m d (Obj kvs) = Undefined \<or> (\<exists>kvs'. m d (Obj kvs) = Obj kvs')"
  shows "state (setState updates w) =
           merge_props (state w)
             (spec_pending (middlewares w) (state w) updates (length (middlewares w)))
       \<and> map_of (state (setState updates w)) =
           map_of (state w) ++
           map_of (rev (own_props
             (spec_pending (middlewares w) (state w) updates (length (middlewares w)))))
       \<and> invoked (setState updates w) =
           invoked w @ map (\<lambda>cb. (cb, state (setState updates w), state w)) (subscribers w)
       \<and> middlewares (use m w) = middlewares w @ [m]
       \<and> subscribers (snd (subscribe cb w)) = subscribers w @ [cb]"
proof -
  have st: "state (setState updates w) =
      merge_props (state w)
        (spec_pending (middlewares w) (state w) updates (length (middlewares w)))"
    using foldl_spec_pending [OF assms(2) assms(1), of "state w" "length (middlewares w)"]
    by (simp add: setState_def Let_def notify_def)
  show ?thesis
    using st invoked_setState [of updates w]
    by (simp add: map_of_merge_props use_def subscribe_def)
qed

theorem setState_pipeline_witness:
  "state (setState (Obj [(''loading'', Bool True)]) example_store) =
       [(''currentSection'', Str ''home''),
        (''user'', Str ''ann''),
        (''notifications'', Arr []),
        (''loading'', Bool True),
        (''formData'', Obj []),
        (''stats'', Obj [(''projects'', Num 0), (''components'', Num 0), (''satisfaction'', Num 0)])]
   \<and> map fst (invoked (setState (Obj [(''loading'', Bool True)]) example_store)) = [1, 2]
   \<and> map (\<lambda>c. snd (snd c)) (invoked (setState (Obj [(''loading'', Bool True)]) example_store))
       = [initial_state, initial_state]"
proof -
  have ms: "middlewares example_store = [loggingMiddleware, mw_nothing, mw_stamp]"
    by (simp add: example_store_def use_def subscribe_def new_AppState_def)
  have u: "\<exists>kvs. Obj [(''loading'', Bool True)] = Obj kvs"
    by simp
  have h: "\<forall>m\<in>set (middlewares example_store). \<forall>d kvs.
             m d (Obj kvs) = Undefined \<or> (\<exists>kvs'. m d (Obj kvs) = Obj kvs')"
    by (simp add: ms loggingMiddleware_def mw_nothing_def mw_stamp_def)
  have st: "state example_store = initial_state"
    by (simp add: example_store_def use_def subscribe_def new_AppState_def)
  have subs: "subscribers example_store = [1, 2]"
    by (simp add: example_store_def use_def subscribe_def new_AppState_def)
  have inv: "invoked example_store = []"
    by (simp add: example_store_def use_def subscribe_def new_AppState_def)
  show ?thesis
    using setState_pipeline [OF u h]
    by (simp add: ms st subs inv numeral_3_eq_3 loggingMiddleware_def mw_nothing_def
          mw_stamp_def merge_props_def initial_state_def comp_def)
qed

text \<open>
  C3, as stated, fails: with one callback subscribed twice, calling the unsubscribe
  function of the first subscription removes both entries, and the next update invokes
  nobody.
\<close>

theorem unsubscribe_one_of_two_counterexample:
  "subscribers twice_subscribed = [1, 1]
   \<and> subscribers (first_unsubscribe twice_subscribed) = []
   \<and> invoked (setState (Obj [(''loading'', Bool True)]) (first_unsubscribe twice_subscribed)) = []"
  by (simp add: twice_subscribed_def first_unsubscribe_def subscribe_def unsubscribe_def
        new_AppState_def setState_def Let_def notify_def isDevelopment_def)
text \<open>
  C3, amended. \<open>subscribe\<close> appends the callback and returns an unsubscribe function;
  calling it removes every subscription of that callback, however often it was
  subscribed, and keeps the subscriptions of all other callbacks in their order: the
  callbacks a later update invokes are exactly the other subscribers.
\<close>
theorem unsubscribe_removes_every_subscription:
  "fst (subscribe cb w0) = unsubscribe cb
   \<and> subscribers (snd (subscribe cb w0)) = subscribers w0 @ [cb]
   \<and> subscribers (fst (subscribe cb w0) w) = filter (\<lambda>sub. sub \<noteq> cb) (subscribers w)
   \<and> map fst (drop (length (invoked w)) (invoked (setState u (fst (subscribe cb w0) w))))
       = filter (\<lambda>sub. sub \<noteq> cb) (subscribers w)"
proof -
  have "invoked (unsubscribe cb w) = invoked w" "subscribers (unsubscribe cb w) = filter (\<lambda>sub. sub \<noteq> cb) (subscribers w)"
    by (simp_all add: unsubscribe_def)
  then show ?thesis
    using invoked_setState [of u "unsubscribe cb w"]
    by (simp add: subscribe_def comp_def)
qed
lemma middlewares_setState: "middlewares (setState u w) = middlewares w"
  by (simp add: setState_def Let_def notify_def)


lemma state_setState_plain:
  "middlewares w = [] \<Longrightarrow> state (setState u w) = merge_props (state w) u"
  by (simp add: setState_def Let_def notify_def)


lemma middlewares_foldl_setState:
  "middlewares (foldl (\<lambda>w u. setState u w) w us) = middlewares w"
  by (induction us arbitrary: w) (simp_all add: middlewares_setState)


lemma map_of_rev_None:
  "k \<notin> fst ` set es \<Longrightarrow> map_of (rev es) k = None"
  by (simp add: map_of_eq_None_iff)


lemma map_of_rev_Some:
  "k \<in> fst ` set es \<Longrightarrow> \<exists>v. map_of (rev es) k = Some v"
  by (metis map_of_eq_None_iff not_Some_eq set_rev)
lemma state_foldl_setState:
  assumes "middlewares w = []"
  shows "state (foldl (\<lambda>w u. setState u w) w us) = foldl merge_props (state w) us"
  using assms
proof (induction us arbitrary: w)
  case Nil
  show ?case by simp
next
  case (Cons u us)
  have "middlewares (setState u w) = []"
    using Cons.prems by (simp add: middlewares_setState)
  from Cons.IH [OF this] Cons.prems show ?case
    by (simp add: state_setState_plain)
qed

lemma map_of_foldl_merge_props:
  "map_of (foldl merge_props d us) k =
     (case find (\<lambda>u. k \<in> fst ` set (own_props u)) (rev us) of
        None \<Rightarrow> map_of d k
      | Some u \<Rightarrow> map_of (rev (own_props u)) k)"
proof (induction us rule: rev_induct)
  case Nil
  show ?case by simp
next
  case (snoc u us)
  have step: "map_of (foldl merge_props d (us @ [u])) k =
      (map_of (foldl merge_props d us) ++ map_of (rev (own_props u))) k"
    by (simp add: map_of_merge_props)
  show ?case
  proof (cases "k \<in> fst ` set (own_props u)")
    case True
    from map_of_rev_Some [OF True]
    obtain v where v: "map_of (rev (own_props u)) k = Some v" ..
    have "find (\<lambda>u. k \<in> fst ` set (own_props u)) (rev (us @ [u])) = Some u"
      using True by simp
    then show ?thesis
      using step v by (simp add: map_add_def)
  next
    case False
    then have n: "map_of (rev (own_props u)) k = None"
      by (rule map_of_rev_None)
    have "find (\<lambda>u. k \<in> fst ` set (own_props u)) (rev (us @ [u]))
            = find (\<lambda>u. k \<in> fst ` set (own_props u)) (rev us)"
      using False by simp
    then show ?thesis
      using step n snoc.IH by (simp add: map_add_def)
  qed
qed
text \<open>
  C5. With no middleware registered, the document after a sequence of \<open>setState\<close>
  calls is the left-to-right composition of the shallow merges of the partials onto the
  initial document, and for each key its value is the one written by the last partial
  that has the key (the initial value if none has), whatever earlier updates changed.
\<close>

theorem setState_sequence_last_writer_wins:
  assumes "middlewares w = []"
  shows "state (foldl (\<lambda>w u. setState u w) w us) = foldl merge_props (state w) us
       \<and> map_of (state (foldl (\<lambda>w u. setState u w) w us)) k =
           (case find (\<lambda>u. k \<in> fst ` set (own_props u)) (rev us) of
              None \<Rightarrow> map_of (state w) k
            | Some u \<Rightarrow> map_of (rev (own_props u)) k)"
  using state_foldl_setState [OF assms, of us] map_of_foldl_merge_props [of "state w" us k]
  by (simp only:)
theorem setState_sequence_last_writer_wins_witness:
  "map_of (state (foldl (\<lambda>w u. setState u w) (new_AppState ''example.org'' 0 None)
       [Obj [(''loading'', Bool True), (''user'', Str ''ann'')],
        Obj [(''loading'', Bool False)]])) ''loading'' = Some (Bool False)
   \<and> map_of (state (foldl (\<lambda>w u. setState u w) (new_AppState ''example.org'' 0 None)
       [Obj [(''loading'', Bool True), (''user'', Str ''ann'')],
        Obj [(''loading'', Bool False)]])) ''user'' = Some (Str ''ann'')"
proof -
  let ?us = "[Obj [(''loading'', Bool True), (''user'', Str ''ann'')],
              Obj [(''loading'', Bool False)]]"
  have h: "middlewares (new_AppState ''example.org'' 0 None) = []"
    by (simp add: new_AppState_def)
  note a = setState_sequence_last_writer_wins [OF h, of ?us "''loading''", THEN conjunct2]
  note b = setState_sequence_last_writer_wins [OF h, of ?us "''user''", THEN conjunct2]
  show ?thesis
    unfolding a b by simp
qed
text \<open>
  C10. \<open>reset\<close> puts the initial document back and invokes every subscriber, in
  order, with the initial document and an empty object as the previous one; the
  middlewares play no part; so for every key of the document a subscriber reads
  \<open>undefined\<close> in the previous state and a value other than \<open>undefined\<close> in the
  new one.
\<close>
theorem reset_notifies_with_empty_previous:
  "state (reset w) = initial_state
   \<and> invoked (reset w) = invoked w @ map (\<lambda>cb. (cb, initial_state, [])) (subscribers w)
   \<and> reset (w\<lparr>middlewares := ms\<rparr>) = (reset w)\<lparr>middlewares := ms\<rparr>
   \<and> list_all (\<lambda>k. obj_get k [] = Undefined \<and> obj_get k initial_state \<noteq> Undefined)
        (map fst initial_state)"
  by (simp add: reset_def notify_def notify_invoked obj_get_def initial_state_def)

text \<open>
  C7, as stated, fails for the empty payload: it is malformed JSON, yet \<open>restore\<close>
  skips it before parsing, so no parse failure is caught and nothing is logged.
\<close>

theorem restore_empty_payload_counterexample:
  "example_parse '''' = None
   \<and> console (restore example_parse [''user'', ''formData'']
         (new_AppState ''example.org'' 0 (Some ''''))) = []"
  by (simp add: example_parse_def restore_def new_AppState_def)

text \<open>
  C7, amended. For every stored payload on which \<open>JSON.parse\<close> fails, \<open>restore\<close>
  leaves the document as it was and notifies no subscriber; when the payload is not
  empty the failure is caught and logged, and an empty payload is skipped without a
  parse and without a log entry.
\<close>

theorem restore_malformed_payload:
  assumes "storage w = Some s" and "json_parse s = None"
  shows "state (restore json_parse keys w) = state w
       \<and> invoked (restore json_parse keys w) = invoked w
       \<and> console (restore json_parse keys w) =
           (if s = [] then console w else console w @ [RestoreFailed SyntaxError])"
  using assms by (simp add: restore_def)

theorem restore_malformed_payload_witness:
  "state (restore example_parse [''user'', ''formData'']
       (new_AppState ''example.org'' 0 (Some ''{oops''))) = initial_state
   \<and> invoked (restore example_parse [''user'', ''formData'']
       (new_AppState ''example.org'' 0 (Some ''{oops''))) = []
   \<and> console (restore example_parse [''user'', ''formData'']
       (new_AppState ''example.org'' 0 (Some ''{oops''))) = [RestoreFailed SyntaxError]"
proof -
  have s: "storage (new_AppState ''example.org'' 0 (Some ''{oops'')) = Some ''{oops''"
    by (simp add: new_AppState_def)
  have p: "example_parse ''{oops'' = None"
    by (simp add: example_parse_def)
  show ?thesis
    using restore_malformed_payload
      [of "new_AppState ''example.org'' 0 (Some ''{oops'')" "''{oops''" example_parse
          "[''user'', ''formData'']", OF s p]
    by (simp add: new_AppState_def)
qed

text \<open>
  C6. Each notification is to remove itself, and only itself, once its duration has
  elapsed: of three notifications with durations 100, 200 and 300, only the first is to
  be gone after 150 milliseconds. The code misses this when the three are added within
  one clock tick: they carry the same id, and the first timer removes all of them.
\<close>

theorem same_tick_notifications_all_removed:
  "map_sum id (\<lambda>w. (notification_messages w, notification_messages (advance 150 w)))
     three_in_one_tick
   = Inr ([Str ''first'', Str ''second'', Str ''third''], [])"
  by (simp add: three_in_one_tick_def then_add_def addNotification_def new_AppState_def
        notification_messages_def advance_def fire_def removeNotification_def
        setState_def Let_def notify_def isDevelopment_def merge_props_def obj_get_def
        initial_state_def)

text \<open>Added one tick apart, the three have ids of their own and only the first goes.\<close>

lemma distinct_tick_notifications_first_removed:
  "map_sum id (\<lambda>w. (notification_messages w, notification_messages (advance 150 w)))
     three_in_three_ticks
   = Inr ([Str ''first'', Str ''second'', Str ''third''], [Str ''second'', Str ''third''])"
  by (simp add: three_in_three_ticks_def then_add_def addNotification_def new_AppState_def
        notification_messages_def advance_def fire_def removeNotification_def
        setState_def Let_def notify_def isDevelopment_def merge_props_def obj_get_def
        initial_state_def)

lemma obj_get_merge_single: "obj_get k (merge_props d (Obj [(k, v)])) = v"
  by (simp add: obj_get_def map_of_merge_props)

lemma keep_other_ids_append:
  "keep_other_ids i (xs @ ys) =
     (case keep_other_ids i xs of
        Inl e \<Rightarrow> Inl e
      | Inr a \<Rightarrow> (case keep_other_ids i ys of Inl e \<Rightarrow> Inl e | Inr b \<Rightarrow> Inr (a @ b)))"
  by (induction xs) (auto split: sum.splits)

lemma state_setState_notifications:
  "middlewares w = [] \<Longrightarrow>
   obj_get ''notifications'' (state (setState (Obj [(''notifications'', v)]) w)) = v"
  by (simp add: state_setState_plain obj_get_merge_single)

text \<open>
  When no pending notification carries the id of the current clock reading, a
  notification added on a store without middlewares and without other timers stays in
  the list until its duration has elapsed and is the one removed at that moment.
\<close>

lemma notification_self_removes:
  assumes "middlewares w = []" and "timers w = []"
      and "obj_get ''notifications'' (state w) = Arr ns"
      and "keep_other_ids (int (clock w)) ns = Inr ns"
  shows "\<exists>w1 n. addNotification message type duration w = Inr w1
           \<and> obj_get ''notifications'' (state w1) = Arr (ns @ [n])
           \<and> (\<forall>e<duration. obj_get ''notifications'' (state (advance e w1)) = Arr (ns @ [n]))
           \<and> obj_get ''notifications'' (state (advance duration w1)) = Arr ns"
proof -
  let ?n = "Obj [(''id'', Num (int (clock w))), (''message'', Str message), (''type'', Str type),
                 (''duration'', Num (int duration)), (''timestamp'', Num (int (clock w)))]"
  let ?w0 = "setState (Obj [(''notifications'', Arr (ns @ [?n]))]) w"
  let ?w1 = "?w0\<lparr>timers := timers ?w0 @ [(clock ?w0 + duration, int (clock w))]\<rparr>"
  have add: "addNotification message type duration w = Inr ?w1"
    using assms(3) by (simp add: addNotification_def Let_def)
  have frame: "clock ?w0 = clock w" "timers ?w0 = timers w" "middlewares ?w0 = middlewares w"
    by (simp_all add: setState_def Let_def notify_def)
  have st1: "obj_get ''notifications'' (state ?w1) = Arr (ns @ [?n])"
    using assms(1) by (simp add: state_setState_notifications)
  have early: "obj_get ''notifications'' (state (advance e ?w1)) = Arr (ns @ [?n])"
    if "e < duration" for e
    using that st1 by (simp add: advance_def Let_def frame assms(2))
  have keep: "keep_other_ids (int (clock w)) (ns @ [?n]) = Inr ns"
    by (simp add: keep_other_ids_append assms(4) obj_get_def)
  let ?w2 = "?w0\<lparr>timers := [], clock := clock w + duration\<rparr>"
  have mw2: "middlewares ?w2 = []"
    using assms(1) by (simp add: frame)
  have st2: "obj_get ''notifications'' (state ?w2) = Arr (ns @ [?n])"
    using assms(1) by (simp add: state_setState_notifications)
  have rm: "removeNotification (int (clock w)) ?w2 =
      Inr (setState (Obj [(''notifications'', Arr ns)]) ?w2)"
    by (simp only: removeNotification_def st2 keep jsval.case sum.case)
  have late: "obj_get ''notifications'' (state (advance duration ?w1)) = Arr ns"
    using state_setState_notifications [OF mw2, of "Arr ns"]
    by (simp add: advance_def Let_def frame assms(2) fire_def rm)
  from add st1 early late show ?thesis by blast
qed

section \<open>Properties of the form manager\<close>

lemma example_manager_field:
  "field_of ''contact'' ''name'' example_manager =
     Some \<lparr>element = name_control, validators = [required, minLength 3],
           isValid = True, errors = []\<rparr>"
  by (simp add: example_manager_def addValidator_def registerForm_def discoverFields_def
        addField_def getFieldValidators_def empty_manager_def name_control_def field_of_def)

text \<open>
  C2, as stated, fails: on the empty required field with \<open>minLength 3\<close> attached after
  \<open>required\<close>, the first validator fails and the second one still runs; both messages
  are collected in the field's errors, and only the display is limited to the first.
\<close>

theorem validateField_runs_later_validators_counterexample:
  "map_option errors (field_of ''contact'' ''name''
       (snd (validateField ''contact'' ''name'' example_manager))) =
     Some [Str ''This field is required'',
           Str (''Minimum length is '' @ show_nat 3 @ '' characters'')]
   \<and> map_option (\<lambda>f. el_error (element f)) (field_of ''contact'' ''name''
       (snd (validateField ''contact'' ''name'' example_manager))) =
     Some (Some (Str ''This field is required''))"
  by (simp add: example_manager_def addValidator_def registerForm_def discoverFields_def
        addField_def getFieldValidators_def empty_manager_def name_control_def field_of_def
        validateField_def required_def minLength_def trim_def updateFieldUI_def Let_def)

lemma run_validators_all_return:
  assumes "\<forall>v\<in>set vs. \<exists>r. v value el = Inr r"
  shows "run_validators vs value el acc =
           Inr (acc @ filter (\<lambda>r. r \<noteq> Bool True) (map (\<lambda>v. projr (v value el)) vs))"
  using assms
proof (induction vs arbitrary: acc)
  case Nil
  show ?case by simp
next
  case (Cons v vs)
  from Cons.prems obtain r where r: "v value el = Inr r" by auto
  from Cons.prems have rest: "\<forall>v\<in>set vs. \<exists>r. v value el = Inr r" by simp
  show ?case
    using Cons.IH [OF rest] r by simp
qed

text \<open>
  C2, amended. Validating a field whose validators all return runs every validator in
  attachment order; each result other than \<open>true\<close> is collected, in order, in the
  field's errors; the field is valid exactly when there is none; and the first
  collected message is the one displayed.
\<close>

theorem validateField_collects_all_errors:
  assumes "field_of formId fieldName fm = Some fld"
      and "\<forall>v\<in>set (validators fld). \<exists>r. v (el_value (element fld)) (element fld) = Inr r"
  shows "fst (validateField formId fieldName fm) = Inr (all_errors fld = [])
       \<and> map_option errors
           (field_of formId fieldName (snd (validateField formId fieldName fm)))
           = Some (all_errors fld)
       \<and> map_option isValid
           (field_of formId fieldName (snd (validateField formId fieldName fm)))
           = Some (all_errors fld = [])
       \<and> map_option (\<lambda>f. el_error (element f))
           (field_of formId fieldName (snd (validateField formId fieldName fm)))
           = Some (case all_errors fld of [] \<Rightarrow> None | e # _ \<Rightarrow> Some e)"
proof -
  from assms(1) obtain config where
    c: "map_of (forms fm) formId = Some config" and
    f: "map_of (form_fields config) fieldName = Some fld"
    by (auto simp add: field_of_def split: option.splits)
  have run: "run_validators (validators fld) (el_value (element fld)) (element fld) [] =
      Inr (all_errors fld)"
    using run_validators_all_return [OF assms(2), of "[]"] by (simp add: all_errors_def)
  show ?thesis
    by (simp add: validateField_def c f run Let_def field_of_def update_conv'
          updateFieldUI_def)
qed

theorem validateField_collects_all_errors_witness:
  "fst (validateField ''contact'' ''name'' example_manager) = Inr False
   \<and> map_option errors
       (field_of ''contact'' ''name'' (snd (validateField ''contact'' ''name'' example_manager)))
       = Some [Str ''This field is required'',
               Str (''Minimum length is '' @ show_nat 3 @ '' characters'')]"
proof -
  let ?fld = "\<lparr>element = name_control, validators = [required, minLength 3],
               isValid = True, errors = []\<rparr>"
  have h: "\<forall>v\<in>set (validators ?fld). \<exists>r. v (el_value (element ?fld)) (element ?fld) = Inr r"
    by (simp add: required_def minLength_def)
  have e: "all_errors ?fld =
      [Str ''This field is required'',
       Str (''Minimum length is '' @ show_nat 3 @ '' characters'')]"
    by (simp add: all_errors_def required_def minLength_def name_control_def trim_def)
  show ?thesis
    using validateField_collects_all_errors [OF example_manager_field h]
    by (simp add: e)
qed

text \<open>
  C9. The email validator and every pattern validator return \<open>true\<close> on the empty
  string, and on an empty value the validators attached from a control's attributes
  yield the required message when the control is required and no error otherwise.
\<close>

theorem email_and_pattern_accept_empty:
  "email rx '''' el = Inr (Bool True)
   \<and> pattern rx p '''' el = Inr (Bool True)
   \<and> run_validators (getFieldValidators rx fld) '''' el [] =
       Inr (if el_required fld then [Str ''This field is required''] else [])"
  by (simp add: email_def pattern_def required_def getFieldValidators_def)

subsection \<open>The exit paths of a submission\<close>

lemma dom_update_present:
  "map_of al k = Some v \<Longrightarrow> dom (map_of (AList.update k v' al)) = dom (map_of al)"
  by (auto simp add: update_conv')

lemma validateField_frame:
  "shown (snd (validateField formId fieldName fm)) = shown fm
   \<and> submitted (snd (validateField formId fieldName fm)) = submitted fm
   \<and> app_loading (snd (validateField formId fieldName fm)) = app_loading fm
   \<and> dom (map_of (forms (snd (validateField formId fieldName fm)))) = dom (map_of (forms fm))"
  by (simp add: validateField_def Let_def dom_update_present split: option.splits sum.splits)

lemma validate_fields_frame:
  "shown (snd (validate_fields formId names ok fm)) = shown fm
   \<and> submitted (snd (validate_fields formId names ok fm)) = submitted fm
   \<and> app_loading (snd (validate_fields formId names ok fm)) = app_loading fm
   \<and> dom (map_of (forms (snd (validate_fields formId names ok fm)))) = dom (map_of (forms fm))"
proof (induction names arbitrary: ok fm)
  case Nil
  show ?case by simp
next
  case (Cons n names)
  obtain r fm' where v: "validateField formId n fm = (r, fm')"
    by (cases "validateField formId n fm")
  from validateField_frame [of formId n fm] v
  have fr: "shown fm' = shown fm \<and> submitted fm' = submitted fm
      \<and> app_loading fm' = app_loading fm
      \<and> dom (map_of (forms fm')) = dom (map_of (forms fm))"
    by simp
  show ?case
  proof (cases r)
    case (Inl e)
    with v fr show ?thesis by simp
  next
    case (Inr b)
    with v fr Cons.IH [of "ok \<and> b" fm'] show ?thesis by simp
  qed
qed

lemma validateForm_frame:
  "shown (snd (validateForm formId fm)) = shown fm
   \<and> submitted (snd (validateForm formId fm)) = submitted fm
   \<and> app_loading (snd (validateForm formId fm)) = app_loading fm
   \<and> dom (map_of (forms (snd (validateForm formId fm)))) = dom (map_of (forms fm))"
  by (simp add: validateForm_def validate_fields_frame split: option.splits)

lemma setFormLoading_frame:
  "shown (setFormLoading formId loading fm) = shown fm
   \<and> submitted (setFormLoading formId loading fm) = submitted fm
   \<and> dom (map_of (forms (setFormLoading formId loading fm))) = dom (map_of (forms fm))"
  by (simp add: setFormLoading_def Let_def dom_update_present split: option.splits)

lemma setFormLoading_registered:
  "formId \<in> dom (map_of (forms fm)) \<Longrightarrow> app_loading (setFormLoading formId loading fm) = Some loading"
  by (auto simp add: setFormLoading_def Let_def)

lemma resetForm_frame:
  "shown (resetForm formId fm) = shown fm
   \<and> submitted (resetForm formId fm) = submitted fm
   \<and> dom (map_of (forms (resetForm formId fm))) = dom (map_of (forms fm))"
  by (simp add: resetForm_def dom_update_present split: option.splits)

lemma try_submit_registered:
  "dom (map_of (forms (snd (try_submit formId config fm)))) = dom (map_of (forms fm))"
proof -
  obtain r fm1 where v: "validateForm formId fm = (r, fm1)"
    by (cases "validateForm formId fm")
  from validateForm_frame [of formId fm] v
  have d: "dom (map_of (forms fm1)) = dom (map_of (forms fm))" by simp
  show ?thesis
    using v d
    by (simp add: try_submit_def Let_def showError_def showSuccess_def resetForm_frame
          split: sum.splits bool.splits option.splits)
qed

lemma catch_submit_forms: "forms (snd (catch_submit error fm)) = forms fm"
  by (simp add: catch_submit_def showError_def split: sum.splits)

text \<open>
  Whatever path a submission of a registered form takes, the \<open>finally\<close> block has
  cleared the loading state when it ends.
\<close>

lemma handleSubmit_clears_loading:
  assumes "map_of (forms fm) formId = Some config"
  shows "app_loading (snd (handleSubmit formId fm)) = Some False"
proof -
  let ?fm0 = "setFormLoading formId True fm"
  obtain r fm1 where t: "try_submit formId config ?fm0 = (r, fm1)"
    by (cases "try_submit formId config ?fm0")
  have "formId \<in> dom (map_of (forms fm))"
    using assms by auto
  then have "formId \<in> dom (map_of (forms ?fm0))"
    by (simp add: setFormLoading_frame)
  with try_submit_registered [of formId config ?fm0] t
  have r1: "formId \<in> dom (map_of (forms fm1))" by simp
  show ?thesis
  proof (cases r)
    case None
    with assms t r1 show ?thesis
      by (simp add: handleSubmit_def setFormLoading_registered)
  next
    case (Some error)
    obtain q fm2 where c: "catch_submit error fm1 = (q, fm2)"
      by (cases "catch_submit error fm1")
    with catch_submit_forms [of error fm1] r1
    have "formId \<in> dom (map_of (forms fm2))" by simp
    with assms t Some c show ?thesis
      by (simp add: handleSubmit_def setFormLoading_registered split: option.splits)
  qed
qed

text \<open>
  When the validation a submission runs fails, the handler is not called, the error
  notification is shown and the submission ends normally.
\<close>

lemma handleSubmit_invalid:
  assumes "map_of (forms fm) formId = Some config"
      and "fst (validateForm formId (setFormLoading formId True fm)) = Inr False"
  shows "fst (handleSubmit formId fm) = Fulfilled
       \<and> submitted (snd (handleSubmit formId fm)) = submitted fm
       \<and> shown (snd (handleSubmit formId fm)) =
           shown fm @ [(''error'', Str ''Please fix the errors in the form'')]"
proof -
  let ?fm0 = "setFormLoading formId True fm"
  obtain fm1 where v: "validateForm formId ?fm0 = (Inr False, fm1)"
    using assms(2) by (cases "validateForm formId ?fm0") simp
  from validateForm_frame [of formId ?fm0] v
  have "shown fm1 = shown fm \<and> submitted fm1 = submitted fm"
    by (simp add: setFormLoading_frame)
  with assms(1) v show ?thesis
    by (simp add: handleSubmit_def try_submit_def showError_def setFormLoading_frame)
qed

text \<open>
  When the handler throws a value other than \<open>null\<close> and \<open>undefined\<close>, the error is
  caught and shown with its message, or with the fallback when the message is falsy.
\<close>

lemma handleSubmit_handler_throws:
  assumes "map_of (forms fm) formId = Some config"
      and "validateForm formId (setFormLoading formId True fm) = (Inr True, fm1)"
      and "onSubmit config (getFormData formId fm1) formId = Some error"
      and "get_prop error ''message'' = Inr m"
  shows "fst (handleSubmit formId fm) = Fulfilled
       \<and> submitted (snd (handleSubmit formId fm)) =
           submitted fm @ [(formId, getFormData formId fm1)]
       \<and> shown (snd (handleSubmit formId fm)) =
           shown fm @ [(''error'', if truthy m then m
                                    else Str ''An error occurred while submitting the form'')]"
proof -
  let ?fm0 = "setFormLoading formId True fm"
  from validateForm_frame [of formId ?fm0] assms(2)
  have "shown fm1 = shown fm \<and> submitted fm1 = submitted fm"
    by (simp add: setFormLoading_frame)
  with assms show ?thesis
    by (simp add: handleSubmit_def try_submit_def catch_submit_def showError_def
          setFormLoading_frame Let_def)
qed

text \<open>
  C4. A submission is to show an error notification, with the error's message or the
  fallback, whenever the submit handler throws. The code misses the handler that
  rejects with \<open>undefined\<close> (or \<open>null\<close>): on a valid form the handler is called,
  the \<open>catch\<close> block raises a \<open>TypeError\<close> on reading \<open>error.message\<close>, no
  notification is shown, and the promise of \<open>handleSubmit\<close> is rejected; the loading
  state is cleared all the same.
\<close>

theorem handleSubmit_nullish_rejection:
  "fst (handleSubmit ''contact'' rejecting_manager) = Rejected TypeError
   \<and> submitted (snd (handleSubmit ''contact'' rejecting_manager)) =
       [(''contact'', [(''name'', ''Ann'')])]
   \<and> shown (snd (handleSubmit ''contact'' rejecting_manager)) = []
   \<and> app_loading (snd (handleSubmit ''contact'' rejecting_manager)) = Some False"
  by (simp add: rejecting_manager_def registerForm_def discoverFields_def
        addField_def getFieldValidators_def empty_manager_def name_control_def
        handleSubmit_def setFormLoading_def try_submit_def validateForm_def
        validateField_def required_def trim_def is_space_def updateFieldUI_def Let_def
        getFormData_def catch_submit_def)

section \<open>Properties of the static file servers\<close>

lemma sublist_app_right: "sublist xs ys \<Longrightarrow> sublist xs (zs @ ys)"
  by (metis append_assoc sublist_def)

lemma sublist_app_left: "sublist xs ys \<Longrightarrow> sublist xs (ys @ zs)"
  by (metis append_assoc sublist_def)

lemma not_found_page_names_path: "sublist pathname (not_found_page pathname)"
  unfolding not_found_page_def
  apply (rule sublist_app_right)
  apply (rule sublist_app_right)
  apply (rule sublist_app_right)
  apply (rule sublist_app_right)
  apply (rule sublist_app_right)
  apply (rule sublist_app_left)
  unfolding html_line_def
  apply (rule sublist_app_right)
  apply (rule sublist_app_left)
  apply (rule sublist_appendI)
  done

text \<open>
  C8, as stated, fails for the server of the MVC demo: for a missing file it answers
  404 with the plain-text body \<open>Not found\<close>, which does not contain the requested
  path, and a file that exists but cannot be read gets 404 as well, not 500.
\<close>

theorem mvc_server_not_found_counterexample:
  "mvc_server empty_disk ''/srv/public'' get_missing =
     \<lparr>status = 404, headers = [(''Content-Type'', ''text/plain; charset=utf-8'')],
      body = ''Not found''\<rparr>
   \<and> \<not> sublist ''/missing.css'' (body (mvc_server empty_disk ''/srv/public'' get_missing))
   \<and> status (mvc_server unreadable_disk ''/srv/public'' get_missing) = 404"
proof -
  have "\<not> sublist ''/missing.css'' ''Not found''"
    using sublist_length_le [of "''/missing.css''" "''Not found''"] by auto
  then show ?thesis
    by (simp add: mvc_server_def empty_disk_def unreadable_disk_def get_missing_def
          index_default_def Let_def)
qed

text \<open>
  C8, amended. \<open>DevServer\<close> answers a request other than \<open>OPTIONS\<close> (a GET in
  particular) whose file does not exist with status 404 and an HTML body that contains
  the requested path, and a file that exists but fails to read with status 500. The
  server of the MVC demo answers every read failure, a missing file included, with
  status 404 and the plain-text body \<open>Not found\<close>.
\<close>

theorem static_servers_error_responses:
  "(req_method req \<noteq> ''OPTIONS'' \<and>
    \<not> file_exists env (path_join env root (index_default (pathname_of env (req_url req))))
      \<longrightarrow> status (handleRequest env root req) = 404
        \<and> map_of (headers (handleRequest env root req)) ''Content-Type'' = Some ''text/html''
        \<and> sublist (index_default (pathname_of env (req_url req)))
             (body (handleRequest env root req)))
   \<and> (req_method req \<noteq> ''OPTIONS'' \<and>
      file_exists env (path_join env root (index_default (pathname_of env (req_url req)))) \<and>
      read_file env (path_join env root (index_default (pathname_of env (req_url req)))) = Inl message
      \<longrightarrow> status (handleRequest env root req) = 500)
   \<and> (read_file env (path_join env root (index_default (req_url req))) = Inl message
      \<longrightarrow> status (mvc_server env root req) = 404
        \<and> map_of (headers (mvc_server env root req)) ''Content-Type''
            = Some ''text/plain; charset=utf-8''
        \<and> body (mvc_server env root req) = ''Not found'')"
  by (simp add: handleRequest_def mvc_server_def Let_def dev_headers_def
        not_found_page_names_path)

theorem static_servers_error_responses_witness:
  "status (handleRequest empty_disk ''/srv/site'' get_missing) = 404
   \<and> sublist ''/missing.css'' (body (handleRequest empty_disk ''/srv/site'' get_missing))
   \<and> status (handleRequest unreadable_disk ''/srv/site'' get_missing) = 500
   \<and> body (mvc_server empty_disk ''/srv/public'' get_missing) = ''Not found''"
proof -
  have p: "index_default (pathname_of empty_disk (req_url get_missing)) = ''/missing.css''"
    by (simp add: index_default_def empty_disk_def get_missing_def)
  have a: "req_method get_missing \<noteq> ''OPTIONS'' \<and>
      \<not> file_exists empty_disk (path_join empty_disk ''/srv/site''
           (index_default (pathname_of empty_disk (req_url get_missing))))"
    by (simp add: empty_disk_def get_missing_def)
  have b: "req_method get_missing \<noteq> ''OPTIONS'' \<and>
      file_exists unreadable_disk (path_join unreadable_disk ''/srv/site''
        (index_default (pathname_of unreadable_disk (req_url get_missing)))) \<and>
      read_file unreadable_disk (path_join unreadable_disk ''/srv/site''
        (index_default (pathname_of unreadable_disk (req_url get_missing))))
        = Inl ''EISDIR: illegal operation on a directory, read''"
    by (simp add: unreadable_disk_def get_missing_def)
  have c: "read_file empty_disk (path_join empty_disk ''/srv/public''
        (index_default (req_url get_missing))) = Inl ''ENOENT: no such file or directory''"
    by (simp add: empty_disk_def)
  from static_servers_error_responses
         [of get_missing empty_disk "''/srv/site''" "''ENOENT: no such file or directory''"] a
  have r1: "status (handleRequest empty_disk ''/srv/site'' get_missing) = 404
      \<and> sublist (index_default (pathname_of empty_disk (req_url get_missing)))
           (body (handleRequest empty_disk ''/srv/site'' get_missing))"
    by blast
  from static_servers_error_responses
         [of get_missing unreadable_disk "''/srv/site''"
             "''EISDIR: illegal operation on a directory, read''"] b
  have r2: "status (handleRequest unreadable_disk ''/srv/site'' get_missing) = 500"
    by blast
  from static_servers_error_responses
         [of get_missing empty_disk "''/srv/public''" "''ENOENT: no such file or directory''"] c
  have r3: "body (mvc_server empty_disk ''/srv/public'' get_missing) = ''Not found''"
    by blast
  from r1 r2 r3 show ?thesis
    by (simp only: p) 
qed

end
